theory Spec2Isabelle
  imports Complex_Main
begin

unbundle bit_operations_syntax

section \<open>The artificial retina: data model\<close>

text \<open>
  The class \<open>ArtificialRetina\<close> of \<open>Artificiaal retina.py\<close>. Python floats are modelled
  as \<^typ>\<open>real\<close> (no overflow, and \<open>nan\<close> written out where the code can produce it),
  without rounding in the speed and the mean, and with the rounding of doubles in the
  scaling of coordinates, where the result is truncated to an integer. Python ints are
  \<^typ>\<open>int\<close>. The wall clock \<open>time.time()\<close> is an input:
  every function that reads it takes the value read as an argument.
\<close>

type_synonym point = "int \<times> int"

record 'acc retina =
  avg_frame :: "'acc option"
  position_history :: "point list"
  area_history :: "int list"
  prev_time :: real

definition RETINA_W :: int where "RETINA_W = 320"
definition RETINA_H :: int where "RETINA_H = 240"
definition MIN_AREA :: real where "MIN_AREA = 800"
definition ADAPTATION_RATE :: real where "ADAPTATION_RATE = 0.02"
definition HISTORY_LEN :: nat where "HISTORY_LEN = 5"
definition PIXEL_TO_METER_METRIC :: real where "PIXEL_TO_METER_METRIC = 0.05"

text \<open>\<open>__init__\<close>: the argument is the value of \<open>time.time()\<close> at construction.\<close>

definition init :: "real \<Rightarrow> 'acc retina" where
  "init t0 = \<lparr>avg_frame = None, position_history = [], area_history = [], prev_time = t0\<rparr>"

text \<open>
  \<open>collections.deque(maxlen=n).append(x)\<close>: the element is added on the right, and when
  the deque is then longer than \<open>maxlen\<close> one element is dropped on the left.
\<close>

definition deque_append :: "nat \<Rightarrow> 'a list \<Rightarrow> 'a \<Rightarrow> 'a list" where
  "deque_append maxlen d x = (let d' = d @ [x] in if maxlen < length d' then tl d' else d')"

text \<open>\<open>np.mean\<close> of a list of ints; \<open>None\<close> is the \<open>nan\<close> numpy returns for an empty list.\<close>

definition np_mean :: "int list \<Rightarrow> real option" where
  "np_mean xs = (if xs = [] then None else Some (real_of_int (sum_list xs) / real (length xs)))"

section \<open>The temporal tracker\<close>

text \<open>
  \<open>calculate_dynamics(center, area)\<close>, with the clock value \<open>current_time\<close> it reads.
  Every comparison with \<open>nan\<close> is false, so an undefined \<open>area_delta\<close> leaves the state
  at \<open>Stationary\<close>.
\<close>

definition calculate_dynamics ::
  "real \<Rightarrow> point \<Rightarrow> int \<Rightarrow> 'acc retina \<Rightarrow> (real \<times> string) \<times> 'acc retina" where
  "calculate_dynamics current_time center area self =
    (let dt = current_time - prev_time self;
         s1 = self\<lparr>prev_time := current_time\<rparr>
     in if dt = 0 then ((0, ''Static''), s1)
        else
          let s2 = s1\<lparr>position_history := deque_append HISTORY_LEN (position_history s1) center\<rparr>;
              s3 = s2\<lparr>area_history := deque_append HISTORY_LEN (area_history s2) area\<rparr>
          in if length (position_history s3) < 2 then ((0, ''Analyzing...''), s3)
             else
               let start_pos = position_history s3 ! 0;
                   curr_pos = last (position_history s3);
                   dx = fst curr_pos - fst start_pos;
                   dy = snd curr_pos - snd start_pos;
                   distance_pixels = sqrt (real_of_int (dx\<^sup>2 + dy\<^sup>2));
                   speed = (distance_pixels * PIXEL_TO_METER_METRIC)
                             / (dt * real (length (position_history s3)));
                   avg_past_area = np_mean (butlast (area_history s3));
                   area_delta = map_option (\<lambda>m. real_of_int area - m) avg_past_area;
                   looming_state =
                     (case area_delta of
                        None \<Rightarrow> ''Stationary''
                      | Some d \<Rightarrow>
                          if d > 50 then ''APPROACHING !!!''
                          else if d < - 50 then ''Receding''
                          else ''Stationary'')
               in ((speed, looming_state), s3))"

section \<open>The motion classifier\<close>

text \<open>Python's \<open>needle in haystack\<close> on strings: a contiguous occurrence.\<close>

fun str_startswith :: "string \<Rightarrow> string \<Rightarrow> bool" where
  "str_startswith [] hay = True"
| "str_startswith (c # cs) [] = False"
| "str_startswith (c # cs) (h # hs) = (c = h \<and> str_startswith cs hs)"

fun str_in :: "string \<Rightarrow> string \<Rightarrow> bool" where
  "str_in needle [] = (needle = [])"
| "str_in needle (h # hs) = (str_startswith needle (h # hs) \<or> str_in needle hs)"

type_synonym bgr = "nat \<times> nat \<times> nat"

definition is_danger :: "real \<Rightarrow> string \<Rightarrow> bool" where
  "is_danger speed motion_state = (speed > 50 \<or> str_in ''APPROACHING'' motion_state)"

definition box_color :: "real \<Rightarrow> string \<Rightarrow> bgr" where
  "box_color speed motion_state = (if is_danger speed motion_state then (0, 0, 255) else (0, 255, 0))"

section \<open>The OpenCV interface\<close>

text \<open>
  The image operations of \<open>cv2\<close> are not code of the repository: they are parameters of
  the model, over abstract types of colour frames, grayscale images, floating-point
  accumulators and contours.
\<close>

record ('frame, 'gray, 'acc, 'cnt) cv2 =
  cv_shape :: "'frame \<Rightarrow> int \<times> int"
  cv_resize :: "'frame \<Rightarrow> int \<times> int \<Rightarrow> 'frame"
  cv_cvtColor_BGR2GRAY :: "'frame \<Rightarrow> 'gray"
  cv_GaussianBlur :: "'gray \<Rightarrow> nat \<times> nat \<Rightarrow> 'gray"
  cv_subtract :: "'gray \<Rightarrow> 'gray \<Rightarrow> 'gray"
  cv_astype_float :: "'gray \<Rightarrow> 'acc"
  cv_accumulateWeighted :: "'gray \<Rightarrow> 'acc \<Rightarrow> real \<Rightarrow> 'acc"
  cv_convertScaleAbs :: "'acc \<Rightarrow> 'gray"
  cv_absdiff :: "'gray \<Rightarrow> 'gray \<Rightarrow> 'gray"
  cv_threshold_BINARY :: "'gray \<Rightarrow> nat \<Rightarrow> nat \<Rightarrow> 'gray"
  cv_dilate :: "'gray \<Rightarrow> nat \<Rightarrow> 'gray"
  cv_findContours :: "'gray \<Rightarrow> 'cnt list"
  cv_contourArea :: "'cnt \<Rightarrow> real"
  cv_boundingRect :: "'cnt \<Rightarrow> int \<times> int \<times> int \<times> int"

section \<open>The contrast filter\<close>

definition mimic_ganglion_cells :: "('frame, 'gray, 'acc, 'cnt) cv2 \<Rightarrow> 'gray \<Rightarrow> 'gray" where
  "mimic_ganglion_cells cv gray_frame =
    (let g1 = cv_GaussianBlur cv gray_frame (3, 3);
         g2 = cv_GaussianBlur cv gray_frame (13, 13)
     in cv_subtract cv g1 g2)"

section \<open>The blob extractor\<close>

text \<open>
  The loop over the contours of \<open>process_visual_field\<close>: the pair is
  \<open>(focus_cnt, max_area)\<close>, started at \<open>(None, 0)\<close>.
\<close>

definition focus_step ::
  "('frame, 'gray, 'acc, 'cnt) cv2 \<Rightarrow> 'cnt option \<times> real \<Rightarrow> 'cnt \<Rightarrow> 'cnt option \<times> real" where
  "focus_step cv st cnt =
    (let area = cv_contourArea cv cnt
     in if area > MIN_AREA \<and> area > snd st then (Some cnt, area) else st)"

definition find_focus :: "('frame, 'gray, 'acc, 'cnt) cv2 \<Rightarrow> 'cnt list \<Rightarrow> 'cnt option" where
  "find_focus cv contours = fst (foldl (focus_step cv) (None, 0) contours)"

text \<open>Python's \<open>int(x)\<close> on a float: truncation towards zero.\<close>

definition py_int :: "real \<Rightarrow> int" where
  "py_int r = (if 0 \<le> r then \<lfloor>r\<rfloor> else \<lceil>r\<rceil>)"

text \<open>
  The arithmetic of doubles (IEEE 754 binary64, round to nearest, ties to even): the exact
  result is rounded to 53 significant bits. The exponent range is not bounded here:
  overflow and subnormal numbers, which image dimensions do not reach, are left out.
\<close>

definition round_half_even :: "real \<Rightarrow> int" where
  "round_half_even q =
     (let f = \<lfloor>q\<rfloor>; r = q - real_of_int f
      in if r < 1 / 2 then f else if 1 / 2 < r then f + 1 else if even f then f else f + 1)"

definition double_round :: "real \<Rightarrow> real" where
  "double_round x =
     (if x = 0 then 0
      else let e = \<lfloor>log 2 \<bar>x\<bar>\<rfloor>; ulp = 2 powr (real_of_int e - 52)
           in real_of_int (round_half_even (x / ulp)) * ulp)"

text \<open>
  The focus region in full-resolution coordinates: the bounding box \<open>(X, Y, W, H)\<close>, the
  centre point and \<open>object_area\<close>. \<open>frame.shape\<close> is \<open>(rows, columns)\<close>. The scale factors
  are quotients of two ints, rounded to a double; each coordinate is converted to a double,
  multiplied by the scale factor in doubles, and truncated by \<open>int\<close>.
\<close>

record focus_region =
  fr_box :: "int \<times> int \<times> int \<times> int"
  fr_center :: point
  fr_area :: int

definition map_to_screen ::
  "('frame, 'gray, 'acc, 'cnt) cv2 \<Rightarrow> 'frame \<Rightarrow> 'cnt \<Rightarrow> focus_region" where
  "map_to_screen cv frame focus_cnt =
    (case cv_boundingRect cv focus_cnt of (x, y, w, h) \<Rightarrow>
      let scale_x = double_round (real_of_int (snd (cv_shape cv frame)) / real_of_int RETINA_W);
          scale_y = double_round (real_of_int (fst (cv_shape cv frame)) / real_of_int RETINA_H);
          X = py_int (double_round (double_round (real_of_int x) * scale_x));
          Y = py_int (double_round (double_round (real_of_int y) * scale_y));
          W = py_int (double_round (double_round (real_of_int w) * scale_x));
          H = py_int (double_round (double_round (real_of_int h) * scale_y))
      in \<lparr>fr_box = (X, Y, W, H), fr_center = (X + W div 2, Y + H div 2), fr_area = W * H\<rparr>)"

section \<open>The frame loop\<close>

text \<open>
  What one turn of the loop receives from outside: the frame read, the value the clock
  has in this turn, and the key code \<open>cv2.waitKey(1)\<close> returns.
\<close>

record 'frame cycle_input =
  in_frame :: 'frame
  in_clock :: real
  in_key :: int

text \<open>What is drawn on \<open>display_frame\<close> when there is a focus.\<close>

record overlay =
  ov_box :: "int \<times> int \<times> int \<times> int"
  ov_color :: bgr
  ov_speed :: real
  ov_motion_state :: string
  ov_trail :: "(point \<times> point) list"

text \<open>The two windows shown at the end of a turn.\<close>

record ('frame, 'gray) shown =
  sh_frame :: 'frame
  sh_overlay :: "overlay option"
  sh_ganglion :: 'gray

text \<open>The foreground mask: background adaptation, difference, threshold, dilation.\<close>

definition foreground_mask ::
  "('frame, 'gray, 'acc, 'cnt) cv2 \<Rightarrow> 'gray \<Rightarrow> 'acc \<Rightarrow> 'acc \<times> 'gray" where
  "foreground_mask cv gray avg =
    (let avg' = cv_accumulateWeighted cv gray avg ADAPTATION_RATE;
         frame_delta = cv_absdiff cv gray (cv_convertScaleAbs cv avg');
         thresh = cv_threshold_BINARY cv frame_delta 30 255;
         thresh = cv_dilate cv thresh 4
     in (avg', thresh))"

text \<open>
  The branch \<open>if focus_cnt is not None\<close> with its \<open>else\<close>: the tracker state after it and
  the overlay drawn.
\<close>

definition track ::
  "('frame, 'gray, 'acc, 'cnt) cv2 \<Rightarrow> 'frame \<Rightarrow> real \<Rightarrow> 'cnt option \<Rightarrow> 'acc retina
     \<Rightarrow> 'acc retina \<times> overlay option" where
  "track cv frame now focus_cnt self =
    (case focus_cnt of
       Some cnt \<Rightarrow>
         let fr = map_to_screen cv frame cnt;
             ((speed, motion_state), s1) = calculate_dynamics now (fr_center fr) (fr_area fr) self;
             color = box_color speed motion_state
         in (s1, Some \<lparr>ov_box = fr_box fr, ov_color = color, ov_speed = speed,
                       ov_motion_state = motion_state,
                       ov_trail = zip (position_history s1) (tl (position_history s1))\<rparr>)
     | None \<Rightarrow> (self\<lparr>position_history := [], area_history := []\<rparr>, None))"

text \<open>
  One turn of \<open>while True\<close> after a successful \<open>cap.read()\<close>. The result is the new state,
  what is shown (nothing in the turn that seeds the background, which ends with
  \<open>continue\<close>), and whether the loop goes on.
\<close>

definition cycle ::
  "('frame, 'gray, 'acc, 'cnt) cv2 \<Rightarrow> 'frame cycle_input \<Rightarrow> 'acc retina
     \<Rightarrow> 'acc retina \<times> ('frame, 'gray) shown option \<times> bool" where
  "cycle cv inp self =
    (let frame = in_frame inp;
         small_frame = cv_resize cv frame (RETINA_W, RETINA_H);
         gray = cv_cvtColor_BGR2GRAY cv small_frame;
         bio_view = mimic_ganglion_cells cv gray
     in case avg_frame self of
          None \<Rightarrow> (self\<lparr>avg_frame := Some (cv_astype_float cv gray)\<rparr>, None, True)
        | Some avg \<Rightarrow>
            let (avg', thresh) = foreground_mask cv gray avg;
                s1 = self\<lparr>avg_frame := Some avg'\<rparr>;
                contours = cv_findContours cv thresh;
                focus_cnt = find_focus cv contours;
                (s2, ov) = track cv frame (in_clock inp) focus_cnt s1
            in (s2, Some \<lparr>sh_frame = frame, sh_overlay = ov, sh_ganglion = bio_view\<rparr>,
                in_key inp AND 255 \<noteq> 113))"

text \<open>
  \<open>process_visual_field\<close> on a frame source that delivers the given turns and then fails
  (\<open>ret\<close> false): the final state and everything shown.
\<close>

fun process_visual_field ::
  "('frame, 'gray, 'acc, 'cnt) cv2 \<Rightarrow> 'acc retina \<Rightarrow> 'frame cycle_input list
     \<Rightarrow> 'acc retina \<times> ('frame, 'gray) shown list" where
  "process_visual_field cv self [] = (self, [])"
| "process_visual_field cv self (inp # rest) =
    (case cycle cv inp self of
       (s1, out, go_on) \<Rightarrow>
         if go_on then
           (case process_visual_field cv s1 rest of
              (s2, outs) \<Rightarrow> (s2, (case out of None \<Rightarrow> [] | Some d \<Rightarrow> [d]) @ outs))
         else (s1, (case out of None \<Rightarrow> [] | Some d \<Rightarrow> [d])))"

section \<open>Notions of the specification\<close>

text \<open>The Euclidean distance between two pixel positions.\<close>

definition pixel_distance :: "point \<Rightarrow> point \<Rightarrow> real" where
  "pixel_distance p q =
     sqrt ((real_of_int (fst q) - real_of_int (fst p))\<^sup>2
         + (real_of_int (snd q) - real_of_int (snd p))\<^sup>2)"

text \<open>The arithmetic mean of a non-empty list of areas.\<close>

definition mean :: "int list \<Rightarrow> real" where
  "mean xs = real_of_int (sum_list xs) / real (length xs)"

text \<open>
  The looming classification of the specification. The code's label of the state
  ``Approaching'' is the string \<open>APPROACHING !!!\<close>.
\<close>

definition looming_of :: "real \<Rightarrow> string" where
  "looming_of area_delta =
     (if area_delta > 50 then ''APPROACHING !!!''
      else if area_delta < - 50 then ''Receding''
      else ''Stationary'')"

text \<open>The capacity invariant of the two history buffers.\<close>

definition history_bounded :: "'acc retina \<Rightarrow> bool" where
  "history_bounded s =
     (length (position_history s) \<le> HISTORY_LEN \<and> length (area_history s) \<le> HISTORY_LEN)"

text \<open>
  The invariant of the frame loop: the buffers are within capacity, and they are empty
  as long as the background has not been seeded.
\<close>

definition running_inv :: "'acc retina \<Rightarrow> bool" where
  "running_inv s =
     (history_bounded s
      \<and> (avg_frame s = None \<longrightarrow> position_history s = [] \<and> area_history s = []))"

text \<open>
  The invariant of the loop over the contours, after the contours \<open>cs\<close>: without a focus
  nothing seen so far exceeds the minimum area; with a focus, it is the first contour
  of the largest area seen so far.
\<close>

definition focus_inv ::
  "('frame, 'gray, 'acc, 'cnt) cv2 \<Rightarrow> 'cnt list \<Rightarrow> 'cnt option \<times> real \<Rightarrow> bool" where
  "focus_inv cv cs st =
     (case fst st of
        None \<Rightarrow> snd st = 0 \<and> (\<forall>j<length cs. cv_contourArea cv (cs ! j) \<le> MIN_AREA)
      | Some c \<Rightarrow> snd st = cv_contourArea cv c \<and> MIN_AREA < snd st
          \<and> (\<exists>i<length cs. cs ! i = c
                \<and> (\<forall>j<i. cv_contourArea cv (cs ! j) < snd st)
                \<and> (\<forall>j<length cs. cv_contourArea cv (cs ! j) \<le> snd st)))"

text \<open>
  A small instance of the OpenCV interface, to run the model on concrete inputs: a contour
  is its area with its bounding box, a frame is its shape with the contours the pipeline
  finds in it, and the image operations pass the contours through.
\<close>

type_synonym sample_cnt = "real \<times> (int \<times> int \<times> int \<times> int)"
type_synonym sample_frame = "(int \<times> int) \<times> sample_cnt list"

definition sample_cv :: "(sample_frame, sample_cnt list, sample_cnt list, sample_cnt) cv2" where
  "sample_cv =
     \<lparr>cv_shape = fst,
      cv_resize = (\<lambda>f sz. f),
      cv_cvtColor_BGR2GRAY = snd,
      cv_GaussianBlur = (\<lambda>g k. g),
      cv_subtract = (\<lambda>a b. a),
      cv_astype_float = (\<lambda>g. g),
      cv_accumulateWeighted = (\<lambda>g a r. a),
      cv_convertScaleAbs = (\<lambda>a. a),
      cv_absdiff = (\<lambda>g a. g),
      cv_threshold_BINARY = (\<lambda>g t m. g),
      cv_dilate = (\<lambda>g n. g),
      cv_findContours = (\<lambda>g. g),
      cv_contourArea = fst,
      cv_boundingRect = snd\<rparr>"

text \<open>A tracker that has seen one focus, at the origin with area 100, at time 0.\<close>

definition one_sample :: "unit retina" where
  "one_sample =
     \<lparr>avg_frame = None, position_history = [(0, 0)], area_history = [100], prev_time = 0\<rparr>"

text \<open>A tracker whose last four focus areas were 100.\<close>

definition four_samples :: "unit retina" where
  "four_samples =
     \<lparr>avg_frame = None, position_history = [(0, 0), (0, 0), (0, 0), (0, 0)],
      area_history = [100, 100, 100, 100], prev_time = 0\<rparr>"

text \<open>
  A tracker that has seen one focus of 448 by 469 pixels, centred at \<open>(224, 234)\<close>, at
  time 0.
\<close>

definition prior_focus :: "sample_cnt list retina" where
  "prior_focus =
     \<lparr>avg_frame = Some [], position_history = [(224, 234)], area_history = [210112],
      prev_time = 0\<rparr>"

section \<open>Facts about the buffers and the rounding\<close>

lemma deque_append_last: "0 < n \<Longrightarrow> last (deque_append n d x) = x"
  by (cases d) (auto simp: deque_append_def Let_def last_tl)

lemma length_deque_append_le: "length d \<le> n \<Longrightarrow> length (deque_append n d x) \<le> n"
  by (auto simp: deque_append_def Let_def)

lemma length_deque_append_ge2: "d \<noteq> [] \<Longrightarrow> 2 \<le> length (deque_append HISTORY_LEN d x)"
  by (cases d) (auto simp: deque_append_def Let_def HISTORY_LEN_def)

lemma sqrt_25: "sqrt 25 = 5"
  by (rule real_sqrt_unique) simp_all

lemma round_half_even_of_int: "round_half_even (real_of_int z) = z"
  by (simp add: round_half_even_def)

lemma double_round_eval:
  assumes "2 powr real_of_int e \<le> \<bar>x\<bar>" and "\<bar>x\<bar> < 2 powr (real_of_int e + 1)"
  shows "double_round x
       = real_of_int (round_half_even (x / 2 powr (real_of_int e - 52)))
           * 2 powr (real_of_int e - 52)"
proof -
  have "(0::real) < 2 powr real_of_int e" by simp
  then have pos: "0 < \<bar>x\<bar>" using assms(1) by linarith
  have e: "\<lfloor>log 2 \<bar>x\<bar>\<rfloor> = e"
    using pos assms floor_log_eq_powr_iff [of "\<bar>x\<bar>" 2 e] by simp
  have "x \<noteq> 0" using pos by simp
  then show ?thesis by (simp add: double_round_def e Let_def)
qed

text \<open>An integer below \<open>2 ^ 53\<close> in absolute value is a double.\<close>

lemma double_round_of_int:
  assumes "\<bar>n\<bar> < 9007199254740992"
  shows "double_round (real_of_int n) = real_of_int n"
proof (cases "n = 0")
  case True
  then show ?thesis by (simp add: double_round_def)
next
  case False
  define e where "e = \<lfloor>log 2 \<bar>real_of_int n\<bar>\<rfloor>"
  have pos: "1 \<le> \<bar>real_of_int n\<bar>" using False by linarith
  have "\<bar>real_of_int n\<bar> < 2 powr 53" using assms by simp
  then have "log 2 \<bar>real_of_int n\<bar> < 53" using pos by (simp add: log_less_iff)
  then have e52: "e \<le> 52" unfolding e_def by linarith
  define k where "k = nat (52 - e)"
  have ulp: "2 powr (real_of_int e - 52) = 1 / 2 ^ k"
  proof -
    have "real_of_int e - 52 = - real k" unfolding k_def using e52 by simp
    then show ?thesis by (simp add: powr_minus powr_realpow inverse_eq_divide)
  qed
  have q: "real_of_int n / (1 / 2 ^ k) = real_of_int (n * 2 ^ k)" by simp
  have "double_round (real_of_int n)
      = real_of_int (round_half_even (real_of_int n / (1 / 2 ^ k))) * (1 / 2 ^ k)"
    using False by (simp add: double_round_def Let_def e_def [symmetric] ulp)
  also have "\<dots> = real_of_int n"
    unfolding q round_half_even_of_int by simp
  finally show ?thesis .
qed

lemma double_round_numeral:
  "(numeral k :: int) < 9007199254740992 \<Longrightarrow> double_round (numeral k) = numeral k"
  using double_round_of_int [of "numeral k"] by simp

lemma double_round_0: "double_round 0 = 0"
  by (simp add: double_round_def)

text \<open>
  A frame 3264 columns wide: the scale factor \<open>3264 / 320\<close> is not a double, and 45
  low-resolution pixels become 458 and not 459.
\<close>

lemma double_round_51_5: "double_round (51 / 5) = 2871044762448691 / 281474976710656"
proof -
  have "double_round (51 / 5)
      = real_of_int (round_half_even ((51 / 5) / 2 powr (real_of_int 3 - 52)))
          * 2 powr (real_of_int 3 - 52)"
    by (rule double_round_eval) simp_all
  also have "\<dots> = 2871044762448691 / 281474976710656"
    by (simp add: round_half_even_def powr_minus Let_def)
  finally show ?thesis .
qed

lemma scaled_45: "py_int (double_round (double_round 45 * double_round (51 / 5))) = 458"
proof -
  have p: "double_round 45 * double_round (51 / 5) = 129197014310191095 / 281474976710656"
    by (simp add: double_round_51_5 double_round_numeral)
  have "double_round (129197014310191095 / 281474976710656)
      = real_of_int (round_half_even
          ((129197014310191095 / 281474976710656) / 2 powr (real_of_int 8 - 52)))
          * 2 powr (real_of_int 8 - 52)"
    by (rule double_round_eval) simp_all
  also have "\<dots> = 8074813394386943 / 17592186044416"
    by (simp add: round_half_even_def powr_minus Let_def)
  finally have r: "double_round (129197014310191095 / 281474976710656)
      = 8074813394386943 / 17592186044416" .
  show ?thesis unfolding p r by (simp add: py_int_def)
qed

section \<open>Properties of the temporal tracker\<close>

text \<open>
  Claim C1. When \<open>dt \<noteq> 0\<close> and the position buffer holds at least two positions after the
  new centre is appended, the speed returned is the Euclidean pixel distance between the
  oldest and the newest buffered position, times the calibration constant 0.05, divided by
  \<open>dt\<close> times the number of buffered positions.
\<close>

theorem speed_formula:
  assumes dt: "current_time - prev_time self \<noteq> 0"
    and buf: "buf = deque_append HISTORY_LEN (position_history self) center"
    and len: "2 \<le> length buf"
  shows "position_history (snd (calculate_dynamics current_time center area self)) = buf
       \<and> last buf = center
       \<and> fst (fst (calculate_dynamics current_time center area self))
           = pixel_distance (hd buf) (last buf) * 0.05
               / ((current_time - prev_time self) * real (length buf))"
proof -
  have ne: "buf \<noteq> []" using len by auto
  have l: "last buf = center"
    unfolding buf by (rule deque_append_last) (simp add: HISTORY_LEN_def)
  have h: "buf ! 0 = hd buf" using ne by (simp add: hd_conv_nth)
  have nl: "\<not> length buf < 2" using len by simp
  show ?thesis
    using dt nl h l unfolding buf
    by (simp add: calculate_dynamics_def Let_def pixel_distance_def PIXEL_TO_METER_METRIC_def)
qed

theorem speed_formula_witness:
  "(1::real) - prev_time one_sample \<noteq> 0
   \<and> 2 \<le> length (deque_append HISTORY_LEN (position_history one_sample) (3, 4))
   \<and> fst (fst (calculate_dynamics 1 (3, 4) 100 one_sample)) = 1 / 8"
proof -
  have dt: "(1::real) - prev_time one_sample \<noteq> 0" by (simp add: one_sample_def)
  have buf: "[(0, 0), (3, 4)] = deque_append HISTORY_LEN (position_history one_sample) (3, 4)"
    by (simp add: one_sample_def deque_append_def HISTORY_LEN_def)
  have len: "2 \<le> length [(0::int, 0::int), (3, 4)]" by simp
  have d: "pixel_distance (0, 0) (3, 4) = 5" by (simp add: pixel_distance_def sqrt_25)
  show ?thesis
    using speed_formula [OF dt buf len, of 100] dt buf [symmetric] d
    by (simp add: one_sample_def)
qed

text \<open>
  Claim C2. When \<open>dt \<noteq> 0\<close> and at least two samples are buffered after appending,
  \<open>area_delta\<close> is the current area minus the mean of the buffered areas without the most
  recent one, and the state is Approaching above \<open>+50\<close>, Receding below \<open>-50\<close> and
  Stationary otherwise. With the area history \<open>[100, 100, 100, 100]\<close>, the area 160 gives
  Approaching, 40 gives Receding and 120 gives Stationary.
\<close>

theorem looming_classification:
  assumes dt: "current_time - prev_time self \<noteq> 0"
  shows "(2 \<le> length (deque_append HISTORY_LEN (position_history self) center)
          \<and> 2 \<le> length (deque_append HISTORY_LEN (area_history self) area)
          \<longrightarrow> area_history (snd (calculate_dynamics current_time center area self))
                = deque_append HISTORY_LEN (area_history self) area
            \<and> last (deque_append HISTORY_LEN (area_history self) area) = area
            \<and> snd (fst (calculate_dynamics current_time center area self))
                = looming_of (real_of_int area
                    - mean (butlast (deque_append HISTORY_LEN (area_history self) area))))
       \<and> (position_history self \<noteq> [] \<and> area_history self = [100, 100, 100, 100]
          \<longrightarrow> snd (fst (calculate_dynamics current_time center 160 self)) = ''APPROACHING !!!''
            \<and> snd (fst (calculate_dynamics current_time center 40 self)) = ''Receding''
            \<and> snd (fst (calculate_dynamics current_time center 120 self)) = ''Stationary'')"
proof -
  have general: "area_history (snd (calculate_dynamics current_time center a self))
                = deque_append HISTORY_LEN (area_history self) a
            \<and> last (deque_append HISTORY_LEN (area_history self) a) = a
            \<and> snd (fst (calculate_dynamics current_time center a self))
                = looming_of (real_of_int a
                    - mean (butlast (deque_append HISTORY_LEN (area_history self) a)))"
    if pbuf: "2 \<le> length (deque_append HISTORY_LEN (position_history self) center)"
      and alen: "2 \<le> length (deque_append HISTORY_LEN (area_history self) a)" for a
  proof -
    have l: "last (deque_append HISTORY_LEN (area_history self) a) = a"
      by (rule deque_append_last) (simp add: HISTORY_LEN_def)
    have ne: "butlast (deque_append HISTORY_LEN (area_history self) a) \<noteq> []"
      using alen by (cases "deque_append HISTORY_LEN (area_history self) a") auto
    have nl: "\<not> length (deque_append HISTORY_LEN (position_history self) center) < 2"
      using pbuf by simp
    show ?thesis
      using dt nl l ne
      by (simp add: calculate_dynamics_def Let_def np_mean_def mean_def looming_of_def)
  qed
  have scenario: "snd (fst (calculate_dynamics current_time center a self))
       = looming_of (real_of_int a - 100)"
    if ph: "position_history self \<noteq> []" and ah: "area_history self = [100, 100, 100, 100]" for a
  proof -
    have b: "deque_append HISTORY_LEN (area_history self) a = [100, 100, 100, 100, a]"
      by (simp add: ah deque_append_def HISTORY_LEN_def)
    have m: "mean (butlast (deque_append HISTORY_LEN (area_history self) a)) = 100"
      unfolding b by (simp add: mean_def)
    have "2 \<le> length (deque_append HISTORY_LEN (area_history self) a)"
      unfolding b by simp
    from general [OF length_deque_append_ge2 [OF ph] this] show ?thesis
      by (simp only: m)
  qed
  show ?thesis
    using general [of area] scenario [of 160] scenario [of 40] scenario [of 120]
    by (simp add: looming_of_def)
qed

theorem looming_classification_witness:
  "(1::real) - prev_time four_samples \<noteq> 0
   \<and> position_history four_samples \<noteq> []
   \<and> area_history four_samples = [100, 100, 100, 100]
   \<and> 2 \<le> length (deque_append HISTORY_LEN (position_history four_samples) (0, 0))
   \<and> 2 \<le> length (deque_append HISTORY_LEN (area_history four_samples) 160)
   \<and> snd (fst (calculate_dynamics 1 (0, 0) 160 four_samples)) = ''APPROACHING !!!''
   \<and> snd (fst (calculate_dynamics 1 (0, 0) 40 four_samples)) = ''Receding''
   \<and> snd (fst (calculate_dynamics 1 (0, 0) 120 four_samples)) = ''Stationary''"
proof -
  have dt: "(1::real) - prev_time four_samples \<noteq> 0" by (simp add: four_samples_def)
  have ph: "position_history four_samples \<noteq> []" by (simp add: four_samples_def)
  have ah: "area_history four_samples = [100, 100, 100, 100]" by (simp add: four_samples_def)
  have l: "2 \<le> length (deque_append HISTORY_LEN (position_history four_samples) (0, 0))"
    "2 \<le> length (deque_append HISTORY_LEN (area_history four_samples) 160)"
    by (simp_all add: four_samples_def deque_append_def HISTORY_LEN_def)
  show ?thesis
    using looming_classification [OF dt, of "(0, 0)" 160] dt ph ah l by blast
qed

text \<open>
  Claim C5. When \<open>dt = 0\<close> the call returns speed 0 with the state \<open>Static\<close> and leaves
  both history buffers as they were: the new centre and area are not appended.
\<close>

theorem zero_dt_static:
  assumes "current_time - prev_time self = 0"
  shows "fst (calculate_dynamics current_time center area self) = (0, ''Static'')
       \<and> position_history (snd (calculate_dynamics current_time center area self))
           = position_history self
       \<and> area_history (snd (calculate_dynamics current_time center area self))
           = area_history self"
  using assms by (simp add: calculate_dynamics_def Let_def)

theorem zero_dt_static_witness:
  "(0::real) - prev_time one_sample = 0
   \<and> fst (calculate_dynamics 0 (3, 4) 500 one_sample) = (0, ''Static'')
   \<and> position_history (snd (calculate_dynamics 0 (3, 4) 500 one_sample)) = [(0, 0)]
   \<and> area_history (snd (calculate_dynamics 0 (3, 4) 500 one_sample)) = [100]"
proof -
  have dt: "(0::real) - prev_time one_sample = 0" by (simp add: one_sample_def)
  show ?thesis
    using zero_dt_static [OF dt, of "(3, 4)" 500] dt by (simp add: one_sample_def)
qed

lemma calculate_dynamics_state_cases:
  "snd (fst (calculate_dynamics t c a s))
     \<in> {''Static'', ''Analyzing...'', ''Stationary'', ''APPROACHING !!!'', ''Receding''}"
  by (simp add: calculate_dynamics_def Let_def split: option.split)

text \<open>
  Claim C6, as stated: every call returns a non-negative speed and one of the three
  states Stationary, Approaching, Receding. It fails: the first call after the buffers
  were cleared returns the state \<open>Analyzing...\<close>, and a clock that went backwards gives a
  negative speed.
\<close>

theorem three_states_counterexample:
  "snd (fst (calculate_dynamics 1 (0, 0) 100 (init 0 :: unit retina)))
      \<notin> {''Stationary'', ''APPROACHING !!!'', ''Receding''}
   \<and> fst (fst (calculate_dynamics (- 1) (3, 4) 100 one_sample)) < 0"
  by (simp add: calculate_dynamics_def Let_def init_def one_sample_def deque_append_def
        HISTORY_LEN_def PIXEL_TO_METER_METRIC_def np_mean_def)

text \<open>
  Claim C6, amended. Every call returns one of five states: \<open>Static\<close>, \<open>Analyzing...\<close>,
  Stationary, Approaching or Receding; it is one of the last three whenever \<open>dt \<noteq> 0\<close> and
  at least two positions are buffered after appending. The speed is non-negative whenever
  the clock has not gone backwards (\<open>dt \<ge> 0\<close>).
\<close>

theorem five_states_nonneg_speed:
  "snd (fst (calculate_dynamics t c a s))
     \<in> {''Static'', ''Analyzing...'', ''Stationary'', ''APPROACHING !!!'', ''Receding''}
   \<and> (t - prev_time s \<noteq> 0 \<and> 2 \<le> length (deque_append HISTORY_LEN (position_history s) c)
        \<longrightarrow> snd (fst (calculate_dynamics t c a s))
              \<in> {''Stationary'', ''APPROACHING !!!'', ''Receding''})
   \<and> (0 \<le> t - prev_time s \<longrightarrow> 0 \<le> fst (fst (calculate_dynamics t c a s)))"
  by (simp add: calculate_dynamics_def Let_def PIXEL_TO_METER_METRIC_def split: option.split)

theorem five_states_nonneg_speed_witness:
  "(1::real) - prev_time one_sample \<noteq> 0
   \<and> 2 \<le> length (deque_append HISTORY_LEN (position_history one_sample) (3, 4))
   \<and> 0 \<le> (1::real) - prev_time one_sample
   \<and> snd (fst (calculate_dynamics 1 (3, 4) 100 one_sample))
        \<in> {''Stationary'', ''APPROACHING !!!'', ''Receding''}
   \<and> 0 \<le> fst (fst (calculate_dynamics 1 (3, 4) 100 one_sample))"
proof -
  have dt: "(1::real) - prev_time one_sample \<noteq> 0" "0 \<le> (1::real) - prev_time one_sample"
    by (simp_all add: one_sample_def)
  have len: "2 \<le> length (deque_append HISTORY_LEN (position_history one_sample) (3, 4))"
    by (simp add: one_sample_def deque_append_def HISTORY_LEN_def)
  show ?thesis
    using five_states_nonneg_speed [of 1 "(3, 4)" 100 one_sample] dt len by blast
qed

section \<open>The frame loop, unfolded\<close>

lemma track_Some:
  "track cv frame now (Some cnt) s =
     (let fr = map_to_screen cv frame cnt;
          r = calculate_dynamics now (fr_center fr) (fr_area fr) s
      in (snd r, Some \<lparr>ov_box = fr_box fr, ov_color = box_color (fst (fst r)) (snd (fst r)),
                          ov_speed = fst (fst r), ov_motion_state = snd (fst r),
                          ov_trail = zip (position_history (snd r)) (tl (position_history (snd r)))\<rparr>))"
  by (simp add: track_def Let_def case_prod_beta)

lemma track_None:
  "track cv frame now None s = (s\<lparr>position_history := [], area_history := []\<rparr>, None)"
  by (simp add: track_def)

lemma cycle_Some:
  "avg_frame s = Some avg \<Longrightarrow>
   cycle cv inp s =
     (let gray = cv_cvtColor_BGR2GRAY cv (cv_resize cv (in_frame inp) (RETINA_W, RETINA_H));
          fm = foreground_mask cv gray avg;
          t = track cv (in_frame inp) (in_clock inp) (find_focus cv (cv_findContours cv (snd fm)))
                (s\<lparr>avg_frame := Some (fst fm)\<rparr>)
      in (fst t, Some \<lparr>sh_frame = in_frame inp, sh_overlay = snd t,
                          sh_ganglion = mimic_ganglion_cells cv gray\<rparr>,
          in_key inp AND 255 \<noteq> 113))"
  by (simp add: cycle_def Let_def case_prod_beta)

lemma cycle_None:
  "avg_frame s = None \<Longrightarrow>
   cycle cv inp s =
     (s\<lparr>avg_frame := Some (cv_astype_float cv
         (cv_cvtColor_BGR2GRAY cv (cv_resize cv (in_frame inp) (RETINA_W, RETINA_H))))\<rparr>, None, True)"
  by (simp add: cycle_def Let_def)

lemma process_visual_field_Cons:
  "process_visual_field cv s (inp # rest) =
     (let c = cycle cv inp s;
          shown = (case fst (snd c) of None \<Rightarrow> [] | Some d \<Rightarrow> [d])
      in if snd (snd c)
         then (fst (process_visual_field cv (fst c) rest),
               shown @ snd (process_visual_field cv (fst c) rest))
         else (fst c, shown))"
  by (simp add: Let_def case_prod_beta)

section \<open>Properties of the motion classifier\<close>

lemma str_in_states:
  "st \<in> {''Static'', ''Analyzing...'', ''Stationary'', ''APPROACHING !!!'', ''Receding''}
   \<Longrightarrow> str_in ''APPROACHING'' st = (st = ''APPROACHING !!!'')"
  by auto

text \<open>
  Claim C8. The danger flag is a function of the speed and the motion state alone: on the
  states the tracker returns it is true exactly when the speed exceeds 50 or the state is
  Approaching, and the box drawn is red \<open>(0, 0, 255)\<close> under danger and green
  \<open>(0, 255, 0)\<close> otherwise.
\<close>

theorem danger_classification:
  "(st \<in> {''Static'', ''Analyzing...'', ''Stationary'', ''APPROACHING !!!'', ''Receding''}
      \<longrightarrow> is_danger speed st = (speed > 50 \<or> st = ''APPROACHING !!!'')
        \<and> box_color speed st
            = (if speed > 50 \<or> st = ''APPROACHING !!!'' then (0, 0, 255) else (0, 255, 0)))
   \<and> (\<forall>ov. snd (track cv frame now (Some cnt) self) = Some ov
        \<longrightarrow> ov_color ov = (if ov_speed ov > 50 \<or> ov_motion_state ov = ''APPROACHING !!!''
                            then (0, 0, 255) else (0, 255, 0)))"
proof -
  have a: "is_danger speed st = (speed > 50 \<or> st = ''APPROACHING !!!'')"
    if "st \<in> {''Static'', ''Analyzing...'', ''Stationary'', ''APPROACHING !!!'', ''Receding''}"
    unfolding is_danger_def using str_in_states [OF that] by simp
  have b: "ov_color ov = (if ov_speed ov > 50 \<or> ov_motion_state ov = ''APPROACHING !!!''
                            then (0, 0, 255) else (0, 255, 0))"
    if h: "snd (track cv frame now (Some cnt) self) = Some ov" for ov
  proof -
    let ?r = "calculate_dynamics now (fr_center (map_to_screen cv frame cnt))
        (fr_area (map_to_screen cv frame cnt)) self"
    have ms: "snd (fst ?r)
        \<in> {''Static'', ''Analyzing...'', ''Stationary'', ''APPROACHING !!!'', ''Receding''}"
      by (rule calculate_dynamics_state_cases)
    have ov: "ov_color ov = box_color (fst (fst ?r)) (snd (fst ?r))"
      "ov_speed ov = fst (fst ?r)" "ov_motion_state ov = snd (fst ?r)"
      using h by (auto simp: track_Some Let_def)
    show ?thesis
      unfolding ov box_color_def is_danger_def using str_in_states [OF ms] by simp
  qed
  show ?thesis using a b by (simp add: box_color_def)
qed

theorem danger_classification_witness:
  "''APPROACHING !!!'' \<in> {''Static'', ''Analyzing...'', ''Stationary'', ''APPROACHING !!!'', ''Receding''}
   \<and> is_danger 0 ''APPROACHING !!!''
   \<and> box_color 0 ''APPROACHING !!!'' = (0, 0, 255)
   \<and> snd (track sample_cv ((480, 640), []) 1 (Some (801, (10, 10, 20, 30))) (init 0))
       = Some \<lparr>ov_box = (20, 20, 40, 60), ov_color = (0, 255, 0), ov_speed = 0,
                ov_motion_state = ''Analyzing...'', ov_trail = []\<rparr>"
proof -
  have t: "snd (track sample_cv ((480, 640), []) 1 (Some (801, (10, 10, 20, 30))) (init 0))
       = Some \<lparr>ov_box = (20, 20, 40, 60), ov_color = box_color 0 ''Analyzing...'', ov_speed = 0,
                ov_motion_state = ''Analyzing...'', ov_trail = []\<rparr>"
    by (simp add: track_Some Let_def map_to_screen_def sample_cv_def RETINA_W_def RETINA_H_def
          py_int_def double_round_numeral calculate_dynamics_def init_def deque_append_def
          HISTORY_LEN_def)
  show ?thesis
    using danger_classification [of "''APPROACHING !!!''" 0 sample_cv "((480, 640), [])" 1
        "(801, (10, 10, 20, 30))" "init 0"] t
    by simp
qed

section \<open>Properties of the blob extractor\<close>

lemma focus_fold_snoc:
  "foldl (focus_step cv) st (cs @ [x]) = focus_step cv (foldl (focus_step cv) st cs) x"
  by simp

lemma focus_inv_step:
  assumes "focus_inv cv cs st"
  shows "focus_inv cv (cs @ [x]) (focus_step cv st x)"
proof (cases "cv_contourArea cv x > MIN_AREA \<and> cv_contourArea cv x > snd st")
  case True
  have all: "\<forall>j<length cs. cv_contourArea cv (cs ! j) < cv_contourArea cv x"
    using assms True unfolding focus_inv_def
    by (cases "fst st") (fastforce)+
  have st: "focus_step cv st x = (Some x, cv_contourArea cv x)"
    using True by (simp add: focus_step_def Let_def)
  show ?thesis unfolding st focus_inv_def
    apply simp
    apply (intro conjI)
     apply (simp add: True)
    apply (rule exI[of _ "length cs"])
    using all by (auto simp: nth_append less_Suc_eq)
next
  case False
  have st: "focus_step cv st x = st"
    using False by (auto simp: focus_step_def Let_def)
  show ?thesis
  proof (cases "fst st")
    case None
    then have "snd st = 0" and le: "\<forall>j<length cs. cv_contourArea cv (cs ! j) \<le> MIN_AREA"
      using assms by (auto simp: focus_inv_def)
    then have "cv_contourArea cv x \<le> MIN_AREA" using False by (auto simp: MIN_AREA_def)
    then show ?thesis unfolding st focus_inv_def using None le \<open>snd st = 0\<close>
      by (auto simp: nth_append less_Suc_eq)
  next
    case (Some c)
    then obtain i where i: "snd st = cv_contourArea cv c" "MIN_AREA < snd st" "i < length cs"
        "cs ! i = c" "\<forall>j<i. cv_contourArea cv (cs ! j) < snd st"
        "\<forall>j<length cs. cv_contourArea cv (cs ! j) \<le> snd st"
      using assms by (auto simp: focus_inv_def)
    have x: "cv_contourArea cv x \<le> snd st" using False i(2) by auto
    show ?thesis unfolding st focus_inv_def using Some i(1,2)
      apply simp
      apply (rule exI[of _ i])
      using i(3-6) x by (auto simp: nth_append less_Suc_eq)
  qed
qed

lemma focus_inv_fold: "focus_inv cv cs (foldl (focus_step cv) (None, 0) cs)"
proof (induction cs rule: rev_induct)
  case Nil
  show ?case by (simp add: focus_inv_def)
next
  case (snoc x xs)
  show ?case unfolding focus_fold_snoc by (rule focus_inv_step) (rule snoc)
qed

lemma find_focus_Some:
  assumes "find_focus cv cs = Some c"
  shows "MIN_AREA < cv_contourArea cv c
       \<and> (\<exists>i<length cs. cs ! i = c
            \<and> (\<forall>j<i. cv_contourArea cv (cs ! j) < cv_contourArea cv c)
            \<and> (\<forall>j<length cs. cv_contourArea cv (cs ! j) \<le> cv_contourArea cv c))"
  using focus_inv_fold[of cv cs] assms by (auto simp: find_focus_def focus_inv_def)

lemma find_focus_None:
  "find_focus cv cs = None \<longleftrightarrow> (\<forall>c\<in>set cs. cv_contourArea cv c \<le> MIN_AREA)"
proof
  assume "find_focus cv cs = None"
  then show "\<forall>c\<in>set cs. cv_contourArea cv c \<le> MIN_AREA"
    using focus_inv_fold[of cv cs] by (auto simp: find_focus_def focus_inv_def in_set_conv_nth)
next
  assume a: "\<forall>c\<in>set cs. cv_contourArea cv c \<le> MIN_AREA"
  show "find_focus cv cs = None"
  proof (cases "find_focus cv cs")
    case (Some c)
    then have "c \<in> set cs \<and> MIN_AREA < cv_contourArea cv c"
      using find_focus_Some [OF Some] by auto
    then show ?thesis using a by fastforce
  qed simp
qed

text \<open>
  Claim C4. No contour whose area is below 800 becomes the focus; a frame whose only blob
  has area 799 yields no focus region, and a blob of area 801 is accepted.
\<close>

theorem min_area_filter:
  "(\<forall>c. find_focus cv cs = Some c \<longrightarrow> c \<in> set cs \<and> \<not> cv_contourArea cv c < 800)
   \<and> ((\<forall>c\<in>set cs. cv_contourArea cv c < 800) \<longrightarrow> find_focus cv cs = None)
   \<and> (cv_contourArea cv b = 799
        \<longrightarrow> find_focus cv [b] = None \<and> snd (track cv frame now (find_focus cv [b]) s) = None)
   \<and> (cv_contourArea cv b = 801
        \<longrightarrow> find_focus cv [b] = Some b \<and> snd (track cv frame now (find_focus cv [b]) s) \<noteq> None)
   \<and> (b \<in> set cs \<and> cv_contourArea cv b = 801 \<longrightarrow> find_focus cv cs \<noteq> None)"
proof -
  have 1: "c \<in> set cs \<and> \<not> cv_contourArea cv c < 800" if "find_focus cv cs = Some c" for c
    using find_focus_Some[OF that] by (auto simp: MIN_AREA_def)
  have 2: "find_focus cv cs = None" if "\<forall>c\<in>set cs. cv_contourArea cv c < 800"
    using that by (fastforce simp: find_focus_None MIN_AREA_def)
  have 3: "find_focus cv [b] = None" if "cv_contourArea cv b = 799"
    using that by (simp add: find_focus_def focus_step_def MIN_AREA_def)
  have 4: "find_focus cv [b] = Some b" if "cv_contourArea cv b = 801"
    using that by (simp add: find_focus_def focus_step_def MIN_AREA_def)
  have 5: "find_focus cv cs \<noteq> None" if "b \<in> set cs \<and> cv_contourArea cv b = 801"
    using that by (auto simp: find_focus_None MIN_AREA_def intro!: bexI[of _ b])
  have 6: "snd (track cv frame now None s) = None" by (simp add: track_None)
  have 7: "snd (track cv frame now (Some b) s) \<noteq> None" by (simp add: track_Some Let_def)
  have c1: "\<forall>c. find_focus cv cs = Some c \<longrightarrow> c \<in> set cs \<and> \<not> cv_contourArea cv c < 800"
    using 1 by blast
  have c2: "(\<forall>c\<in>set cs. cv_contourArea cv c < 800) \<longrightarrow> find_focus cv cs = None"
    using 2 by blast
  have c3: "cv_contourArea cv b = 799
        \<longrightarrow> find_focus cv [b] = None \<and> snd (track cv frame now (find_focus cv [b]) s) = None"
    using 3 6 by simp
  have c4: "cv_contourArea cv b = 801
        \<longrightarrow> find_focus cv [b] = Some b \<and> snd (track cv frame now (find_focus cv [b]) s) \<noteq> None"
    using 4 7 by simp
  have c5: "b \<in> set cs \<and> cv_contourArea cv b = 801 \<longrightarrow> find_focus cv cs \<noteq> None"
    using 5 by blast
  show ?thesis by (intro conjI c1 c2 c3 c4 c5)
qed

theorem min_area_filter_witness:
  "cv_contourArea sample_cv (799, (0, 0, 40, 40)) = 799
   \<and> find_focus sample_cv [(799, (0, 0, 40, 40))] = None
   \<and> cv_contourArea sample_cv (801, (0, 0, 40, 40)) = 801
   \<and> ((801, (0, 0, 40, 40)) :: sample_cnt) \<in> set [(500, (5, 5, 1, 1)), (801, (0, 0, 40, 40))]
   \<and> find_focus sample_cv [(801, (0, 0, 40, 40))] = Some (801, (0, 0, 40, 40))
   \<and> find_focus sample_cv [(500, (5, 5, 1, 1)), (801, (0, 0, 40, 40))] \<noteq> None"
proof -
  have a: "cv_contourArea sample_cv (799, (0, 0, 40, 40)) = 799"
    "cv_contourArea sample_cv (801, (0, 0, 40, 40)) = 801"
    by (simp_all add: sample_cv_def)
  have m: "((801, (0, 0, 40, 40)) :: sample_cnt) \<in> set [(500, (5, 5, 1, 1)), (801, (0, 0, 40, 40))]"
    by simp
  have q: "\<forall>c\<in>set [(799, (0, 0, 40, 40))]. cv_contourArea sample_cv c < 800"
    by (simp add: sample_cv_def)
  note f1 = min_area_filter [where cv = sample_cv and cs = "[(799, (0, 0, 40, 40))]"
        and b = "(799, (0, 0, 40, 40))" and frame = "((480, 640), [])" and now = 1
        and s = "init 0"]
  note f2 = min_area_filter [where cv = sample_cv
        and cs = "[(500, (5, 5, 1, 1)), (801, (0, 0, 40, 40))]"
        and b = "(801, (0, 0, 40, 40))" and frame = "((480, 640), [])" and now = 1
        and s = "init 0"]
  have r1: "find_focus sample_cv [(799, (0, 0, 40, 40))] = None"
    by (rule f1 [THEN conjunct2, THEN conjunct1, THEN mp, OF q])
  have r2: "find_focus sample_cv [(801, (0, 0, 40, 40))] = Some (801, (0, 0, 40, 40))"
    by (rule f2 [THEN conjunct2, THEN conjunct2, THEN conjunct2, THEN conjunct1, THEN mp,
          OF a(2), THEN conjunct1])
  have r3: "find_focus sample_cv [(500, (5, 5, 1, 1)), (801, (0, 0, 40, 40))] \<noteq> None"
    by (rule f2 [THEN conjunct2, THEN conjunct2, THEN conjunct2, THEN conjunct2, THEN mp,
          OF conjI [OF m a(2)]])
  show ?thesis by (intro conjI a m r1 r2 r3)
qed

text \<open>
  Claim C9. Whenever some contour exceeds the minimum area, exactly one focus is produced:
  a contour of the largest area, and among several of that area the one enumerated first
  (the comparison with the running maximum is strict).
\<close>

theorem first_largest_focus:
  assumes "\<exists>c\<in>set cs. MIN_AREA < cv_contourArea cv c"
  shows "\<exists>i<length cs. find_focus cv cs = Some (cs ! i)
           \<and> MIN_AREA < cv_contourArea cv (cs ! i)
           \<and> (\<forall>j<length cs. cv_contourArea cv (cs ! j) \<le> cv_contourArea cv (cs ! i))
           \<and> (\<forall>j<i. cv_contourArea cv (cs ! j) < cv_contourArea cv (cs ! i))"
proof -
  obtain c0 where c0: "c0 \<in> set cs" "MIN_AREA < cv_contourArea cv c0"
    using assms by blast
  have "find_focus cv cs \<noteq> None"
  proof
    assume "find_focus cv cs = None"
    then have "cv_contourArea cv c0 \<le> MIN_AREA" using c0(1) by (simp add: find_focus_None)
    then show False using c0(2) by simp
  qed
  then obtain c where c: "find_focus cv cs = Some c" by auto
  show ?thesis using find_focus_Some[OF c] c by auto
qed

theorem first_largest_focus_witness:
  "(\<exists>c\<in>set [(900, (0, 0, 1, 1)), (1000, (1, 1, 1, 1)), (1000, (2, 2, 1, 1))].
       MIN_AREA < cv_contourArea sample_cv c)
   \<and> find_focus sample_cv [(900, (0, 0, 1, 1)), (1000, (1, 1, 1, 1)), (1000, (2, 2, 1, 1))]
       = Some (1000, (1, 1, 1, 1))"
proof -
  have h: "\<exists>c\<in>set [(900, (0, 0, 1, 1)), (1000, (1, 1, 1, 1)), (1000, (2, 2, 1, 1))].
       MIN_AREA < cv_contourArea sample_cv c"
    by (simp add: sample_cv_def MIN_AREA_def)
  show ?thesis
    using first_largest_focus [OF h] h
    by (simp add: find_focus_def focus_step_def sample_cv_def MIN_AREA_def)
qed

section \<open>The history buffers over the frame loop\<close>

lemma calculate_dynamics_bounded:
  "history_bounded s \<Longrightarrow> history_bounded (snd (calculate_dynamics t c a s))"
  by (simp add: calculate_dynamics_def Let_def history_bounded_def length_deque_append_le)

lemma calculate_dynamics_avg_frame:
  "avg_frame (snd (calculate_dynamics t c a s)) = avg_frame s"
  by (simp add: calculate_dynamics_def Let_def)

lemma track_bounded:
  "history_bounded s \<Longrightarrow> history_bounded (fst (track cv frame now fc s))"
proof (cases fc)
  case None
  then show ?thesis by (simp add: track_None history_bounded_def)
next
  case (Some cnt)
  assume b: "history_bounded s"
  show ?thesis
    using calculate_dynamics_bounded[OF b, of now "fr_center (map_to_screen cv frame cnt)"
        "fr_area (map_to_screen cv frame cnt)"] Some
    by (simp add: track_Some Let_def)
qed

lemma track_avg_frame: "avg_frame (fst (track cv frame now fc s)) = avg_frame s"
  by (cases fc) (simp_all add: track_None track_Some Let_def calculate_dynamics_avg_frame)

lemma track_overlay_None:
  "snd (track cv frame now fc s) = None \<Longrightarrow>
     position_history (fst (track cv frame now fc s)) = []
     \<and> area_history (fst (track cv frame now fc s)) = []"
  by (cases fc) (simp_all add: track_None track_Some Let_def)

lemma cycle_inv: "running_inv s \<Longrightarrow> running_inv (fst (cycle cv inp s))"
proof (cases "avg_frame s")
  case None
  assume "running_inv s"
  then show ?thesis using None by (simp add: cycle_None running_inv_def history_bounded_def)
next
  case (Some avg)
  assume inv: "running_inv s"
  have b: "history_bounded (s\<lparr>avg_frame := Some a'\<rparr>)" for a'
    using inv by (simp add: running_inv_def history_bounded_def)
  show ?thesis unfolding running_inv_def
    using track_bounded[OF b] by (simp add: cycle_Some[OF Some] Let_def track_avg_frame)
qed

lemma process_visual_field_inv:
  "running_inv s \<Longrightarrow> running_inv (fst (process_visual_field cv s inps))"
proof (induction inps arbitrary: s)
  case Nil
  then show ?case by simp
next
  case (Cons inp rest)
  have s1: "running_inv (fst (cycle cv inp s))" by (rule cycle_inv) (rule Cons.prems)
  show ?case
    using s1 Cons.IH[OF s1]
    by (simp only: process_visual_field_Cons Let_def fst_conv split: if_split) simp
qed

lemma init_inv: "running_inv (init t0)"
  by (simp add: running_inv_def history_bounded_def init_def)

lemma cycle_no_focus:
  assumes inv: "running_inv s"
    and nf: "case fst (snd (cycle cv inp s)) of None \<Rightarrow> True | Some d \<Rightarrow> sh_overlay d = None"
  shows "position_history (fst (cycle cv inp s)) = [] \<and> area_history (fst (cycle cv inp s)) = []"
proof (cases "avg_frame s")
  case None
  then show ?thesis using inv by (simp add: cycle_None running_inv_def)
next
  case (Some avg)
  show ?thesis
    using nf track_overlay_None by (simp add: cycle_Some[OF Some] Let_def)
qed

text \<open>
  Claim C3. A tracker update keeps both history buffers within the capacity, so after
  any run of the frame loop each holds at most 5 entries; and after a turn of the loop that
  produces no focus region both buffers are empty.
\<close>

theorem history_capacity:
  "(history_bounded s \<longrightarrow> history_bounded (snd (calculate_dynamics t c a s)))
   \<and> length (position_history (fst (process_visual_field cv (init started) inps))) \<le> 5
   \<and> length (area_history (fst (process_visual_field cv (init started) inps))) \<le> 5
   \<and> ((case fst (snd (cycle cv inp (fst (process_visual_field cv (init started) inps)))) of
          None \<Rightarrow> True | Some d \<Rightarrow> sh_overlay d = None)
       \<longrightarrow> length (position_history
              (fst (cycle cv inp (fst (process_visual_field cv (init started) inps))))) = 0
         \<and> length (area_history
              (fst (cycle cv inp (fst (process_visual_field cv (init started) inps))))) = 0)"
proof -
  have inv: "running_inv (fst (process_visual_field cv (init started) inps))"
    by (rule process_visual_field_inv) (rule init_inv)
  show ?thesis
    using inv cycle_no_focus[OF inv, of cv inp] calculate_dynamics_bounded[of s t c a]
    by (simp add: running_inv_def history_bounded_def HISTORY_LEN_def)
qed

lemma overlay_None_case:
  "map_option sh_overlay x = Some None \<Longrightarrow>
     (case x of None \<Rightarrow> True | Some d \<Rightarrow> sh_overlay d = None)"
  by (cases x) simp_all

lemma sample_run:
  "fst (process_visual_field sample_cv (init 0)
      [\<lparr>in_frame = ((480, 640), []), in_clock = 1, in_key = - 1\<rparr>,
       \<lparr>in_frame = ((480, 640), [(801, (10, 10, 20, 30))]), in_clock = 2, in_key = - 1\<rparr>])
   = \<lparr>avg_frame = Some [], position_history = [(40, 50)], area_history = [2400],
      prev_time = 2\<rparr>"
  by (simp add: cycle_def foreground_mask_def find_focus_def focus_step_def track_def
        map_to_screen_def calculate_dynamics_def init_def sample_cv_def deque_append_def
        mimic_ganglion_cells_def Let_def RETINA_W_def RETINA_H_def MIN_AREA_def
        HISTORY_LEN_def py_int_def double_round_numeral)

theorem history_capacity_witness:
  "history_bounded one_sample
   \<and> history_bounded (snd (calculate_dynamics 1 (3, 4) 100 one_sample))
   \<and> position_history (fst (process_visual_field sample_cv (init 0)
        [\<lparr>in_frame = ((480, 640), []), in_clock = 1, in_key = - 1\<rparr>,
         \<lparr>in_frame = ((480, 640), [(801, (10, 10, 20, 30))]), in_clock = 2, in_key = - 1\<rparr>]))
       = [(40, 50)]
   \<and> map_option sh_overlay (fst (snd (cycle sample_cv
        \<lparr>in_frame = ((480, 640), [(799, (10, 10, 20, 30))]), in_clock = 3, in_key = - 1\<rparr>
        (fst (process_visual_field sample_cv (init 0)
          [\<lparr>in_frame = ((480, 640), []), in_clock = 1, in_key = - 1\<rparr>,
           \<lparr>in_frame = ((480, 640), [(801, (10, 10, 20, 30))]), in_clock = 2, in_key = - 1\<rparr>])))))
       = Some None
   \<and> position_history (fst (cycle sample_cv
        \<lparr>in_frame = ((480, 640), [(799, (10, 10, 20, 30))]), in_clock = 3, in_key = - 1\<rparr>
        (fst (process_visual_field sample_cv (init 0)
          [\<lparr>in_frame = ((480, 640), []), in_clock = 1, in_key = - 1\<rparr>,
           \<lparr>in_frame = ((480, 640), [(801, (10, 10, 20, 30))]), in_clock = 2, in_key = - 1\<rparr>]))))
       = []
   \<and> area_history (fst (cycle sample_cv
        \<lparr>in_frame = ((480, 640), [(799, (10, 10, 20, 30))]), in_clock = 3, in_key = - 1\<rparr>
        (fst (process_visual_field sample_cv (init 0)
          [\<lparr>in_frame = ((480, 640), []), in_clock = 1, in_key = - 1\<rparr>,
           \<lparr>in_frame = ((480, 640), [(801, (10, 10, 20, 30))]), in_clock = 2, in_key = - 1\<rparr>]))))
       = []"
proof -
  let ?inps = "[\<lparr>in_frame = ((480, 640), []), in_clock = 1, in_key = - 1\<rparr>,
       \<lparr>in_frame = ((480, 640), [(801, (10, 10, 20, 30))]), in_clock = 2, in_key = - 1\<rparr>]"
  let ?inp = "\<lparr>in_frame = ((480, 640), [(799, (10, 10, 20, 30))]), in_clock = 3, in_key = - 1\<rparr>"
  have b: "history_bounded one_sample"
    by (simp add: history_bounded_def one_sample_def HISTORY_LEN_def)
  have o: "map_option sh_overlay (fst (snd (cycle sample_cv ?inp
        (fst (process_visual_field sample_cv (init 0) ?inps))))) = Some None"
    unfolding sample_run
    by (simp add: cycle_def foreground_mask_def find_focus_def focus_step_def track_def
          sample_cv_def mimic_ganglion_cells_def Let_def MIN_AREA_def)
  have nf: "case fst (snd (cycle sample_cv ?inp
        (fst (process_visual_field sample_cv (init 0) ?inps)))) of
          None \<Rightarrow> True | Some d \<Rightarrow> sh_overlay d = None"
    by (rule overlay_None_case [OF o])
  note h = history_capacity [where cv = sample_cv and started = 0 and inps = ?inps and inp = ?inp
      and s = one_sample and t = 1 and c = "(3, 4)" and a = 100]
  have r1: "history_bounded (snd (calculate_dynamics 1 (3, 4) 100 one_sample))"
    by (rule h [THEN conjunct1, THEN mp, OF b])
  have r2: "length (position_history (fst (cycle sample_cv ?inp
        (fst (process_visual_field sample_cv (init 0) ?inps))))) = 0
      \<and> length (area_history (fst (cycle sample_cv ?inp
        (fst (process_visual_field sample_cv (init 0) ?inps))))) = 0"
    by (rule h [THEN conjunct2, THEN conjunct2, THEN conjunct2, THEN mp, OF nf])
  have p: "position_history (fst (process_visual_field sample_cv (init 0) ?inps)) = [(40, 50)]"
    unfolding sample_run by simp
  show ?thesis using b r1 r2 p o by simp
qed

section \<open>The contrast filter does not reach the detection\<close>

lemma focus_step_blur:
  "focus_step (cv\<lparr>cv_GaussianBlur := g, cv_subtract := sb\<rparr>) = focus_step cv"
  by (simp add: fun_eq_iff focus_step_def)

lemma find_focus_blur:
  "find_focus (cv\<lparr>cv_GaussianBlur := g, cv_subtract := sb\<rparr>) cs = find_focus cv cs"
  by (simp add: find_focus_def focus_step_blur)

lemma foreground_mask_blur:
  "foreground_mask (cv\<lparr>cv_GaussianBlur := g, cv_subtract := sb\<rparr>) gray avg
     = foreground_mask cv gray avg"
  by (simp add: foreground_mask_def)

lemma map_to_screen_blur:
  "map_to_screen (cv\<lparr>cv_GaussianBlur := g, cv_subtract := sb\<rparr>) frame cnt
     = map_to_screen cv frame cnt"
  by (simp add: map_to_screen_def)

lemma track_blur:
  "track (cv\<lparr>cv_GaussianBlur := g, cv_subtract := sb\<rparr>) frame now fc s
     = track cv frame now fc s"
  by (cases fc) (simp_all add: track_None track_Some map_to_screen_blur)

lemma cycle_blur:
  "fst (cycle (cv\<lparr>cv_GaussianBlur := g, cv_subtract := sb\<rparr>) inp s) = fst (cycle cv inp s)
   \<and> map_option sh_overlay (fst (snd (cycle (cv\<lparr>cv_GaussianBlur := g, cv_subtract := sb\<rparr>) inp s)))
        = map_option sh_overlay (fst (snd (cycle cv inp s)))
   \<and> map_option sh_frame (fst (snd (cycle (cv\<lparr>cv_GaussianBlur := g, cv_subtract := sb\<rparr>) inp s)))
        = map_option sh_frame (fst (snd (cycle cv inp s)))
   \<and> snd (snd (cycle (cv\<lparr>cv_GaussianBlur := g, cv_subtract := sb\<rparr>) inp s))
        = snd (snd (cycle cv inp s))"
proof (cases "avg_frame s")
  case None
  then show ?thesis by (simp add: cycle_None)
next
  case (Some avg)
  show ?thesis
    by (simp add: cycle_Some[OF Some] Let_def foreground_mask_blur find_focus_blur track_blur)
qed

lemma process_visual_field_blur:
  "fst (process_visual_field (cv\<lparr>cv_GaussianBlur := g, cv_subtract := sb\<rparr>) s inps)
     = fst (process_visual_field cv s inps)
   \<and> map sh_overlay (snd (process_visual_field (cv\<lparr>cv_GaussianBlur := g, cv_subtract := sb\<rparr>) s inps))
     = map sh_overlay (snd (process_visual_field cv s inps))
   \<and> map sh_frame (snd (process_visual_field (cv\<lparr>cv_GaussianBlur := g, cv_subtract := sb\<rparr>) s inps))
     = map sh_frame (snd (process_visual_field cv s inps))"
proof (induction inps arbitrary: s)
  case Nil
  show ?case by simp
next
  case (Cons inp rest)
  let ?cv = "cv\<lparr>cv_GaussianBlur := g, cv_subtract := sb\<rparr>"
  have c: "fst (cycle ?cv inp s) = fst (cycle cv inp s)"
    "snd (snd (cycle ?cv inp s)) = snd (snd (cycle cv inp s))"
    "map_option sh_overlay (fst (snd (cycle ?cv inp s)))
       = map_option sh_overlay (fst (snd (cycle cv inp s)))"
    "map_option sh_frame (fst (snd (cycle ?cv inp s)))
       = map_option sh_frame (fst (snd (cycle cv inp s)))"
    by (simp_all add: cycle_blur)
  have o: "map sh_overlay (case fst (snd (cycle ?cv inp s)) of None \<Rightarrow> [] | Some d \<Rightarrow> [d])
         = map sh_overlay (case fst (snd (cycle cv inp s)) of None \<Rightarrow> [] | Some d \<Rightarrow> [d])"
    using c(3) by (cases "fst (snd (cycle ?cv inp s))"; cases "fst (snd (cycle cv inp s))") simp_all
  have f: "map sh_frame (case fst (snd (cycle ?cv inp s)) of None \<Rightarrow> [] | Some d \<Rightarrow> [d])
         = map sh_frame (case fst (snd (cycle cv inp s)) of None \<Rightarrow> [] | Some d \<Rightarrow> [d])"
    using c(4) by (cases "fst (snd (cycle ?cv inp s))"; cases "fst (snd (cycle cv inp s))") simp_all
  show ?case
    unfolding process_visual_field_Cons Let_def
    using c(1,2) o f Cons.IH[of "fst (cycle cv inp s)"] by simp
qed

text \<open>
  Claim C7. The contrast filter is a function of the grayscale image alone, and nothing
  it computes reaches the detection: with any other Gaussian blur and subtraction in its
  place, the foreground mask, the focus chosen, the tracker's results, the state after any
  run of the loop and every overlay drawn are the same. Its result only goes to the second
  window shown.
\<close>

theorem contrast_filter_noninterference:
  "foreground_mask (cv\<lparr>cv_GaussianBlur := g, cv_subtract := sb\<rparr>) gray avg
      = foreground_mask cv gray avg
   \<and> find_focus (cv\<lparr>cv_GaussianBlur := g, cv_subtract := sb\<rparr>) cs = find_focus cv cs
   \<and> track (cv\<lparr>cv_GaussianBlur := g, cv_subtract := sb\<rparr>) frame now fc s
      = track cv frame now fc s
   \<and> fst (process_visual_field (cv\<lparr>cv_GaussianBlur := g, cv_subtract := sb\<rparr>) s inps)
      = fst (process_visual_field cv s inps)
   \<and> map sh_overlay
        (snd (process_visual_field (cv\<lparr>cv_GaussianBlur := g, cv_subtract := sb\<rparr>) s inps))
      = map sh_overlay (snd (process_visual_field cv s inps))
   \<and> map sh_frame
        (snd (process_visual_field (cv\<lparr>cv_GaussianBlur := g, cv_subtract := sb\<rparr>) s inps))
      = map sh_frame (snd (process_visual_field cv s inps))
   \<and> map_option sh_ganglion (fst (snd (cycle cv inp s)))
      = map_option (\<lambda>avg. mimic_ganglion_cells cv
           (cv_cvtColor_BGR2GRAY cv (cv_resize cv (in_frame inp) (RETINA_W, RETINA_H))))
          (avg_frame s)"
proof -
  have gl: "map_option sh_ganglion (fst (snd (cycle cv inp s)))
        = map_option (\<lambda>avg. mimic_ganglion_cells cv
             (cv_cvtColor_BGR2GRAY cv (cv_resize cv (in_frame inp) (RETINA_W, RETINA_H))))
            (avg_frame s)"
    by (cases "avg_frame s") (simp_all add: cycle_None cycle_Some Let_def)
  show ?thesis
    using gl
    by (simp add: process_visual_field_blur foreground_mask_blur find_focus_blur track_blur)
qed

section \<open>Two measures of area\<close>

text \<open>
  Claim C10. The area appended to the history and used for the looming classification is
  \<open>W * H\<close>, the area of the bounding box scaled to full resolution, each side truncated to
  an integer as the code computes it in doubles; the contour area plays no part in it. The
  minimum-area filter reads only the contour area of the low-resolution contour. The two
  measures differ.
\<close>

theorem object_area_is_bounding_box:
  assumes dt: "now - prev_time self \<noteq> 0"
    and br: "cv_boundingRect cv cnt = (x, y, w, h)"
    and sh: "cv_shape cv frame = (rows, cols)"
    and W: "W = py_int (double_round (double_round (real_of_int w)
                  * double_round (real_of_int cols / 320)))"
    and H: "H = py_int (double_round (double_round (real_of_int h)
                  * double_round (real_of_int rows / 240)))"
  shows "fr_area (map_to_screen cv frame cnt) = W * H
       \<and> area_history (fst (track cv frame now (Some cnt) self))
           = deque_append HISTORY_LEN (area_history self) (W * H)
       \<and> last (area_history (fst (track cv frame now (Some cnt) self))) = W * H
       \<and> map_option ov_motion_state (snd (track cv frame now (Some cnt) self))
           = Some (snd (fst (calculate_dynamics now
                 (fr_center (map_to_screen cv frame cnt)) (W * H) self)))
       \<and> track (cv\<lparr>cv_contourArea := ca\<rparr>) frame now (Some cnt) self
           = track cv frame now (Some cnt) self
       \<and> find_focus (cv\<lparr>cv_boundingRect := rect, cv_shape := shp\<rparr>) cs = find_focus cv cs"
proof -
  have a: "fr_area (map_to_screen cv frame cnt) = W * H"
    by (simp add: map_to_screen_def br sh W H Let_def RETINA_W_def RETINA_H_def)
  have h: "area_history (snd (calculate_dynamics now c (W * H) self))
      = deque_append HISTORY_LEN (area_history self) (W * H)" for c
    using dt by (simp add: calculate_dynamics_def Let_def)
  have l: "last (deque_append HISTORY_LEN (area_history self) (W * H)) = W * H"
    by (rule deque_append_last) (simp add: HISTORY_LEN_def)
  have m: "map_to_screen (cv\<lparr>cv_contourArea := ca\<rparr>) frame cnt = map_to_screen cv frame cnt"
    by (simp add: map_to_screen_def)
  have fs: "focus_step (cv\<lparr>cv_boundingRect := rect, cv_shape := shp\<rparr>) = focus_step cv"
    by (simp add: fun_eq_iff focus_step_def)
  show ?thesis
    using a h l by (simp add: track_Some Let_def m find_focus_def fs)
qed

theorem object_area_is_bounding_box_witness:
  "(1::real) - prev_time prior_focus \<noteq> 0
   \<and> cv_boundingRect sample_cv (2000, (0, 0, 45, 45)) = (0, 0, 45, 45)
   \<and> cv_shape sample_cv ((2448, 3264), []) = (2448, 3264)
   \<and> cv_contourArea sample_cv (2000, (0, 0, 45, 45)) = 2000
   \<and> fr_area (map_to_screen sample_cv ((2448, 3264), []) (2000, (0, 0, 45, 45))) = 209764
   \<and> area_history (fst (track sample_cv ((2448, 3264), []) 1 (Some (2000, (0, 0, 45, 45)))
         prior_focus))
       = [210112, 209764]
   \<and> map_option ov_motion_state
         (snd (track sample_cv ((2448, 3264), []) 1 (Some (2000, (0, 0, 45, 45))) prior_focus))
       = Some ''Receding''"
proof -
  have dt: "(1::real) - prev_time prior_focus \<noteq> 0"
    by (simp add: prior_focus_def)
  have br: "cv_boundingRect sample_cv (2000, (0, 0, 45, 45)) = (0, 0, 45, 45)"
    by (simp add: sample_cv_def)
  have sh: "cv_shape sample_cv ((2448, 3264), []) = (2448, 3264)"
    by (simp add: sample_cv_def)
  have W: "(458::int) = py_int (double_round (double_round (real_of_int 45)
                  * double_round (real_of_int 3264 / 320)))"
    using scaled_45 by simp
  have H: "(458::int) = py_int (double_round (double_round (real_of_int 45)
                  * double_round (real_of_int 2448 / 240)))"
    using scaled_45 by simp
  have ca: "cv_contourArea sample_cv (2000, (0, 0, 45, 45)) = 2000"
    by (simp add: sample_cv_def)
  note t = object_area_is_bounding_box [OF dt br sh W H]
  have r1: "fr_area (map_to_screen sample_cv ((2448, 3264), []) (2000, (0, 0, 45, 45))) = 209764"
    using t [THEN conjunct1] by simp
  have e: "deque_append HISTORY_LEN (area_history prior_focus) (458 * 458) = [210112, 209764]"
    by (simp add: deque_append_def prior_focus_def HISTORY_LEN_def)
  have r2: "area_history (fst (track sample_cv ((2448, 3264), []) 1 (Some (2000, (0, 0, 45, 45)))
         prior_focus)) = [210112, 209764]"
    using t [THEN conjunct2, THEN conjunct1] by (simp only: e)
  have st: "snd (fst (calculate_dynamics 1 c (458 * 458) prior_focus)) = ''Receding''" for c
    by (simp add: calculate_dynamics_def Let_def prior_focus_def deque_append_def
          HISTORY_LEN_def np_mean_def)
  have r3: "map_option ov_motion_state
         (snd (track sample_cv ((2448, 3264), []) 1 (Some (2000, (0, 0, 45, 45))) prior_focus))
       = Some ''Receding''"
    using t [THEN conjunct2, THEN conjunct2, THEN conjunct2, THEN conjunct1]
    by (simp only: st)
  show ?thesis by (intro conjI dt br sh ca r1 r2 r3)
qed

end
